theory Spec2Isabelle
  imports Complex_Main "HOL-Library.Sublist"
begin

section \<open>JavaScript values, store responses and effects\<close>

text \<open>
  The functions verified here are TypeScript \<^verbatim>\<open>async\<close> functions that talk to a
  persistent store (the supabase client) and to an external music catalog. Neither is
  part of the code, so both are parameters of the model: every call to them has an
  outcome chosen by the environment, which is either a thrown exception (a rejected
  promise) or a returned value. The model makes no assumption about these outcomes.

  Console output is not modelled. Optional and nullable fields are \<open>option\<close> values
  (\<open>None\<close> for \<^verbatim>\<open>null\<close> and \<^verbatim>\<open>undefined\<close>).
\<close>

datatype exn = Thrown string

record track =
  track_id :: string
  track_name :: string

text \<open>The \<^verbatim>\<open>{ code, message }\<close> error object of a store response.\<close>

record store_error =
  err_code :: string
  err_message :: string

text \<open>The \<^verbatim>\<open>{ data, error }\<close> object a store query resolves to.\<close>

record 'r response =
  resp_data :: "'r option"
  resp_error :: "store_error option"

text \<open>The object \<^verbatim>\<open>getArtistAllTracks\<close> resolves to: \<^verbatim>\<open>{ tracks }\<close>.\<close>

record tracks_data =
  td_tracks :: "track list option"

text \<open>The payload of the \<^verbatim>\<open>update\<close> in \<^verbatim>\<open>fetchAndStoreArtistTracks\<close>.\<close>

record artist_update =
  au_tracks_last_updated :: string
  au_updated_at :: string
  au_stored_tracks :: "track list"

text \<open>The record \<^verbatim>\<open>artistData\<close> prepared by \<^verbatim>\<open>saveArtistToDatabase\<close>; rows of the
  \<^verbatim>\<open>artists\<close> table returned by \<^verbatim>\<open>upsert(...).select()\<close> have the same columns.\<close>

record artist_data =
  ad_id :: string
  ad_name :: "string option"
  ad_image_url :: "string option"
  ad_genres :: "string list"
  ad_popularity :: int
  ad_upcoming_shows :: int
  ad_spotify_id :: "string option"
  ad_updated_at :: string
  ad_stored_tracks :: "track list option"

text \<open>The record \<^verbatim>\<open>showData\<close> prepared by \<^verbatim>\<open>saveShowToDatabase\<close>.\<close>

record show_data =
  sd_id :: string
  sd_name :: "string option"
  sd_artist_id :: "string option"
  sd_venue_id :: "string option"
  sd_date :: "string option"
  sd_image_url :: "string option"
  sd_ticket_url :: "string option"
  sd_genre_ids :: "string list"
  sd_updated_at :: string

text \<open>
  Every call that leaves the function is recorded as an event, in program order. The
  last constructor records the call of \<^verbatim>\<open>fetchAndStoreArtistTracks\<close> whose promise
  \<^verbatim>\<open>saveArtistToDatabase\<close> does not await.
\<close>

datatype event =
    Call_getStoredTracksForArtist string
  | Call_getArtistAllTracks string
  | Call_updateArtistStoredTracks string "track list"
  | Artists_update string artist_update
  | Artists_select string
  | Artists_upsert artist_data
  | Artists_insert artist_data
  | Shows_select string
  | Shows_upsert show_data
  | Shows_insert show_data
  | Spawn_fetchAndStoreArtistTracks string string "string option"

fun is_write :: "event \<Rightarrow> bool" where
  "is_write (Call_updateArtistStoredTracks _ _) = True"
| "is_write (Artists_update _ _) = True"
| "is_write (Artists_upsert _) = True"
| "is_write (Artists_insert _) = True"
| "is_write (Shows_upsert _) = True"
| "is_write (Shows_insert _) = True"
| "is_write _ = False"

text \<open>
  A computation yields a thrown exception (\<open>Inl\<close>) or a value (\<open>Inr\<close>), together with
  the events it performed. \<open>bind\<close> is sequencing (\<^verbatim>\<open>await\<close> of one call, then the
  rest), \<open>try_catch\<close> is \<^verbatim>\<open>try { ... } catch (e) { ... }\<close>.
\<close>

type_synonym 'a io = "(exn + 'a) \<times> event list"

definition ret :: "'a \<Rightarrow> 'a io" where
  "ret x = (Inr x, [])"

definition throw :: "exn \<Rightarrow> 'a io" where
  "throw e = (Inl e, [])"

definition await :: "event \<Rightarrow> exn + 'a \<Rightarrow> 'a io" where
  "await ev outcome = (outcome, [ev])"

definition bind :: "'a io \<Rightarrow> ('a \<Rightarrow> 'b io) \<Rightarrow> 'b io" where
  "bind m f =
     (case m of
        (Inl e, t) \<Rightarrow> (Inl e, t)
      | (Inr x, t) \<Rightarrow> (case f x of (r, t') \<Rightarrow> (r, t @ t')))"

definition try_catch :: "'a io \<Rightarrow> (exn \<Rightarrow> 'a io) \<Rightarrow> 'a io" where
  "try_catch m h =
     (case m of
        (Inl e, t) \<Rightarrow> (case h e of (r, t') \<Rightarrow> (r, t @ t'))
      | (Inr x, t) \<Rightarrow> (Inr x, t))"

definition result :: "'a io \<Rightarrow> exn + 'a" where
  "result m = fst m"

definition trace :: "'a io \<Rightarrow> event list" where
  "trace m = snd m"

text \<open>JavaScript truthiness of an optional string: \<^verbatim>\<open>null\<close>, \<^verbatim>\<open>undefined\<close> and the
  empty string are falsy.\<close>

definition truthy :: "string option \<Rightarrow> bool" where
  "truthy s = (case s of None \<Rightarrow> False | Some x \<Rightarrow> x \<noteq> [])"

text \<open>\<^verbatim>\<open>a || b\<close> on optional strings.\<close>

definition js_or :: "string option \<Rightarrow> string option \<Rightarrow> string option" where
  "js_or a b = (if truthy a then a else b)"

text \<open>\<^verbatim>\<open>n || 0\<close> on an optional number.\<close>

definition num_or_0 :: "int option \<Rightarrow> int" where
  "num_or_0 n = (case n of None \<Rightarrow> 0 | Some k \<Rightarrow> k)"

section \<open>The artist track catalog: \<^verbatim>\<open>fetchAndStoreArtistTracks\<close>\<close>

text \<open>
  The collaborators of \<^verbatim>\<open>fetchAndStoreArtistTracks\<close>: the two helpers imported from
  \<^verbatim>\<open>./tracks\<close>, the catalog client \<^verbatim>\<open>getArtistAllTracks\<close>, the \<^verbatim>\<open>update\<close> of the
  \<^verbatim>\<open>artists\<close> table, and the string \<^verbatim>\<open>new Date().toISOString()\<close>.
\<close>

record catalog_env =
  getStoredTracksForArtist :: "string \<Rightarrow> exn + track list option"
  getArtistAllTracks :: "string \<Rightarrow> exn + tracks_data option"
  updateArtistStoredTracks :: "string \<Rightarrow> track list \<Rightarrow> exn + unit"
  artists_update :: "string \<Rightarrow> artist_update \<Rightarrow> exn + store_error option"
  catalog_now_iso :: string

text \<open>Lines 163-182: the inner \<^verbatim>\<open>try\<close> that stores the fetched tracks.\<close>

definition store_tracks :: "catalog_env \<Rightarrow> string \<Rightarrow> track list \<Rightarrow> track list option io" where
  "store_tracks env artistId tracksAsJson =
     try_catch
       (bind (await (Call_updateArtistStoredTracks artistId tracksAsJson)
                (updateArtistStoredTracks env artistId tracksAsJson))
          (\<lambda>_. let upd = \<lparr> au_tracks_last_updated = catalog_now_iso env,
                            au_updated_at = catalog_now_iso env,
                            au_stored_tracks = tracksAsJson \<rparr>
                in bind (await (Artists_update artistId upd) (artists_update env artistId upd))
                     (\<lambda>_. ret (Some tracksAsJson))))
       (\<lambda>dbError. ret (Some tracksAsJson))"

text \<open>Lines 138-187. The result is the returned track array, \<open>None\<close> for \<^verbatim>\<open>null\<close>.\<close>

definition fetchAndStoreArtistTracks ::
  "catalog_env \<Rightarrow> string \<Rightarrow> string \<Rightarrow> string option \<Rightarrow> track list option io" where
  "fetchAndStoreArtistTracks env artistId spotifyId artistName =
     try_catch
       (bind (await (Call_getStoredTracksForArtist artistId) (getStoredTracksForArtist env artistId))
          (\<lambda>existingTracks.
             case existingTracks of
               Some (t # ts) \<Rightarrow> ret (Some (t # ts))
             | _ \<Rightarrow>
               bind (await (Call_getArtistAllTracks spotifyId) (getArtistAllTracks env spotifyId))
                 (\<lambda>tracksData.
                    case tracksData of
                      None \<Rightarrow> ret None
                    | Some td \<Rightarrow>
                        (case td_tracks td of
                           None \<Rightarrow> ret None
                         | Some [] \<Rightarrow> ret None
                         | Some (t # ts) \<Rightarrow> store_tracks env artistId (t # ts)))))
       (\<lambda>error. ret None)"

text \<open>The external fetch "returns no tracks": \<^verbatim>\<open>!tracksData || !tracksData.tracks ||
  tracksData.tracks.length === 0\<close>.\<close>

definition no_tracks :: "tracks_data option \<Rightarrow> bool" where
  "no_tracks tracksData =
     (case tracksData of
        None \<Rightarrow> True
      | Some td \<Rightarrow> (case td_tracks td of None \<Rightarrow> True | Some ts \<Rightarrow> length ts = 0))"

section \<open>The JavaScript runtime: dates and the clock\<close>

text \<open>
  \<open>date_getTime s\<close> is \<^verbatim>\<open>new Date(s).getTime()\<close>, with \<open>None\<close> for \<^verbatim>\<open>NaN\<close> (an invalid
  date); \<open>date_toISOString s\<close> is \<^verbatim>\<open>new Date(s).toISOString()\<close>, with \<open>None\<close> where it
  throws a \<^verbatim>\<open>RangeError\<close>; \<open>date_toLocaleDateString s\<close> is the \<^verbatim>\<open>toLocaleDateString\<close>
  call of the show page, which may throw; \<open>now_ms\<close> and \<open>now_iso\<close> are
  \<^verbatim>\<open>new Date().getTime()\<close> and \<^verbatim>\<open>new Date().toISOString()\<close>.
\<close>

record js_runtime =
  date_getTime :: "string \<Rightarrow> int option"
  date_toISOString :: "string \<Rightarrow> string option"
  date_toLocaleDateString :: "string \<Rightarrow> exn + string"
  now_ms :: int
  now_iso :: string

text \<open>\<^verbatim>\<open>new Date(updated_at || 0).getTime()\<close>: a falsy timestamp is the epoch.\<close>

definition lastUpdated_ms :: "js_runtime \<Rightarrow> string option \<Rightarrow> int option" where
  "lastUpdated_ms rt updated_at =
     (case updated_at of
        None \<Rightarrow> Some 0
      | Some s \<Rightarrow> if s = [] then Some 0 else date_getTime rt s)"

text \<open>
  The age of a row in days and in hours, \<open>None\<close> for \<^verbatim>\<open>NaN\<close>. The source divides two
  doubles; the quotient of two integers below \<open>2^53\<close> is correctly rounded and rounding
  is monotone, so comparing it with the integers 7 and 24 gives the same answer as the
  exact quotient used here.
\<close>

definition daysSinceUpdate :: "js_runtime \<Rightarrow> string option \<Rightarrow> real option" where
  "daysSinceUpdate rt updated_at =
     (case lastUpdated_ms rt updated_at of
        None \<Rightarrow> None
      | Some lastUpdated \<Rightarrow> Some (real_of_int (now_ms rt - lastUpdated) / (1000 * 60 * 60 * 24)))"

definition hoursSinceUpdate :: "js_runtime \<Rightarrow> string option \<Rightarrow> real option" where
  "hoursSinceUpdate rt updated_at =
     (case lastUpdated_ms rt updated_at of
        None \<Rightarrow> None
      | Some lastUpdated \<Rightarrow> Some (real_of_int (now_ms rt - lastUpdated) / (1000 * 60 * 60)))"

text \<open>\<^verbatim>\<open>data?.[0] || fallback\<close> on the rows a write returns.\<close>

definition row_or :: "'r list option \<Rightarrow> 'r \<Rightarrow> 'r" where
  "row_or rows fallback = (case rows of Some (r # _) \<Rightarrow> r | _ \<Rightarrow> fallback)"

text \<open>Truthiness of an optional number, and \<^verbatim>\<open>a || b\<close> on optional numbers.\<close>

definition truthy_num :: "int option \<Rightarrow> bool" where
  "truthy_num n = (case n of None \<Rightarrow> False | Some k \<Rightarrow> k \<noteq> 0)"

definition js_or_num :: "int option \<Rightarrow> int option \<Rightarrow> int option" where
  "js_or_num a b = (if truthy_num a then a else b)"

section \<open>Artists: \<^verbatim>\<open>saveArtistToDatabase\<close>\<close>

text \<open>The fields of the argument \<^verbatim>\<open>artist: any\<close> that the function reads;
  \<open>art_genres\<close> is \<open>Some\<close> exactly when \<^verbatim>\<open>Array.isArray(artist.genres)\<close>.\<close>

record artist =
  art_id :: "string option"
  art_name :: "string option"
  art_image :: "string option"
  art_image_url :: "string option"
  art_genres :: "string list option"
  art_popularity :: "int option"
  art_upcomingShows :: "int option"
  art_upcoming_shows :: "int option"
  art_spotify_id :: "string option"
  art_stored_tracks :: "track list option"

text \<open>The row selected by
  \<^verbatim>\<open>select('id, updated_at, stored_tracks, spotify_id, upcoming_shows')\<close>.\<close>

record existing_artist =
  ea_id :: string
  ea_updated_at :: "string option"
  ea_stored_tracks :: "track list option"
  ea_spotify_id :: "string option"
  ea_upcoming_shows :: "int option"

record artist_store =
  artists_select :: "string \<Rightarrow> exn + existing_artist response"
  artists_upsert :: "artist_data \<Rightarrow> exn + artist_data list response"
  artists_insert :: "artist_data \<Rightarrow> exn + artist_data list response"

text \<open>What \<^verbatim>\<open>saveArtistToDatabase\<close> returns: \<^verbatim>\<open>null\<close>, the existing row, a record with the
  columns of the table (the prepared \<^verbatim>\<open>artistData\<close> or a row the store returned), or its
  argument.\<close>

datatype artist_result =
    Null_artist
  | Existing_artist existing_artist
  | Artist_record artist_data
  | Original_artist "artist option"

text \<open>The last two disjuncts of \<^verbatim>\<open>needsUpdate\<close> (lines 43-44): the caller offers data
  the row lacks, a spotify id or a larger number of upcoming shows.\<close>

definition offers_new_data :: "artist \<Rightarrow> existing_artist \<Rightarrow> bool" where
  "offers_new_data a existingArtist =
     ((truthy (art_spotify_id a) \<and> \<not> truthy (ea_spotify_id existingArtist)) \<or>
      (truthy_num (art_upcoming_shows a) \<and>
       num_or_0 (art_upcoming_shows a) > num_or_0 (ea_upcoming_shows existingArtist)))"

text \<open>Lines 40-44.\<close>

definition needsUpdate :: "js_runtime \<Rightarrow> artist \<Rightarrow> existing_artist \<Rightarrow> bool" where
  "needsUpdate rt a existingArtist =
     ((case daysSinceUpdate rt (ea_updated_at existingArtist) of
         None \<Rightarrow> False
       | Some days \<Rightarrow> days > 7) \<or>
      ea_stored_tracks existingArtist = None \<or>
      offers_new_data a existingArtist)"

text \<open>Lines 19-58: the lookup. \<open>Some r\<close> is the early \<^verbatim>\<open>return r\<close>, \<open>None\<close> falls through
  to the write; a store error in the response is logged only.\<close>

definition check_existing_artist ::
  "js_runtime \<Rightarrow> artist_store \<Rightarrow> artist \<Rightarrow> string \<Rightarrow> artist_result option io" where
  "check_existing_artist rt st a aid =
     try_catch
       (bind (await (Artists_select aid) (artists_select st aid))
          (\<lambda>r. case resp_data r of
                  Some existingArtist \<Rightarrow>
                    if \<not> needsUpdate rt a existingArtist
                    then ret (Some (Existing_artist existingArtist))
                    else ret None
                | None \<Rightarrow> ret None))
       (\<lambda>checkError. ret None)"

text \<open>Lines 61-76: \<^verbatim>\<open>artistData\<close>. The tracks are JSON values, which
  \<^verbatim>\<open>JSON.parse(JSON.stringify(...))\<close> returns unchanged.\<close>

definition prepare_artist :: "js_runtime \<Rightarrow> artist \<Rightarrow> string \<Rightarrow> artist_data" where
  "prepare_artist rt a aid =
     \<lparr> ad_id = aid,
       ad_name = art_name a,
       ad_image_url = js_or (art_image a) (art_image_url a),
       ad_genres = (case art_genres a of Some g \<Rightarrow> g | None \<Rightarrow> []),
       ad_popularity = num_or_0 (art_popularity a),
       ad_upcoming_shows = num_or_0 (js_or_num (art_upcomingShows a) (art_upcoming_shows a)),
       ad_spotify_id = (if truthy (art_spotify_id a) then art_spotify_id a else None),
       ad_updated_at = now_iso rt,
       ad_stored_tracks = art_stored_tracks a \<rparr>"

text \<open>Line 92: \<^verbatim>\<open>error.code === '42501' || error.message.includes('permission denied')\<close>.\<close>

definition is_permission_error :: "store_error \<Rightarrow> bool" where
  "is_permission_error err =
     (err_code err = ''42501'' \<or> sublist ''permission denied'' (err_message err))"

text \<open>Lines 82-128: the write.\<close>

definition write_artist ::
  "artist_store \<Rightarrow> artist \<Rightarrow> string \<Rightarrow> artist_data \<Rightarrow> artist_result io" where
  "write_artist st a aid artistData =
     try_catch
       (bind (await (Artists_upsert artistData) (artists_upsert st artistData))
          (\<lambda>r. case resp_error r of
                  Some err \<Rightarrow>
                    if is_permission_error err then
                      bind (await (Artists_insert artistData) (artists_insert st artistData))
                        (\<lambda>r2. case resp_error r2 of
                                 Some insertError \<Rightarrow> ret (Artist_record artistData)
                               | None \<Rightarrow> ret (Artist_record (row_or (resp_data r2) artistData)))
                    else ret (Artist_record artistData)
                | None \<Rightarrow>
                    (let savedArtist = row_or (resp_data r) artistData in
                     case ad_spotify_id artistData of
                       Some spotifyId \<Rightarrow>
                         if ad_stored_tracks savedArtist = None \<and> spotifyId \<noteq> [] then
                           bind (await (Spawn_fetchAndStoreArtistTracks aid spotifyId (art_name a))
                                   (Inr ()))
                             (\<lambda>_. ret (Artist_record savedArtist))
                         else ret (Artist_record savedArtist)
                     | None \<Rightarrow> ret (Artist_record savedArtist))))
       (\<lambda>saveError. ret (Artist_record artistData))"

text \<open>Lines 9-133.\<close>

definition saveArtistToDatabase ::
  "js_runtime \<Rightarrow> artist_store \<Rightarrow> artist option \<Rightarrow> artist_result io" where
  "saveArtistToDatabase rt st artist =
     try_catch
       (case artist of
          None \<Rightarrow> ret Null_artist
        | Some a \<Rightarrow>
            (case art_id a of
               None \<Rightarrow> ret Null_artist
             | Some aid \<Rightarrow>
                 if aid = [] then ret Null_artist
                 else
                   bind (check_existing_artist rt st a aid)
                     (\<lambda>early. case early of
                                 Some r \<Rightarrow> ret r
                               | None \<Rightarrow> write_artist st a aid (prepare_artist rt a aid))))
       (\<lambda>error. ret (Original_artist artist))"


section \<open>Shows: \<^verbatim>\<open>saveShowToDatabase\<close>\<close>

record show_input =
  sh_id :: "string option"
  sh_name :: "string option"
  sh_artist_id :: "string option"
  sh_venue_id :: "string option"
  sh_date :: "string option"
  sh_image_url :: "string option"
  sh_imageUrl :: "string option"
  sh_image :: "string option"
  sh_ticket_url :: "string option"
  sh_ticketUrl :: "string option"
  sh_genre_ids :: "string list option"

text \<open>The row selected by \<^verbatim>\<open>select('id, updated_at')\<close>.\<close>

record existing_show =
  es_id :: string
  es_updated_at :: "string option"

record show_store =
  shows_select :: "string \<Rightarrow> exn + existing_show response"
  shows_upsert :: "show_data \<Rightarrow> exn + show_data list response"
  shows_insert :: "show_data \<Rightarrow> exn + show_data list response"

datatype show_result =
    Null_show
  | Existing_show existing_show
  | Show_record show_data
  | Original_show "show_input option"

text \<open>Lines 18-52: the lookup, with the early \<^verbatim>\<open>return dbShow\<close> as \<open>Some\<close>.\<close>

definition check_existing_show ::
  "js_runtime \<Rightarrow> show_store \<Rightarrow> string \<Rightarrow> show_result option io" where
  "check_existing_show rt st sid =
     try_catch
       (bind (await (Shows_select sid) (shows_select st sid))
          (\<lambda>r. case resp_data r of
                  Some dbShow \<Rightarrow>
                    (case hoursSinceUpdate rt (es_updated_at dbShow) of
                       Some hours \<Rightarrow>
                         if hours < 24 then ret (Some (Existing_show dbShow)) else ret None
                     | None \<Rightarrow> ret None)
                | None \<Rightarrow> ret None))
       (\<lambda>checkError. ret None)"

text \<open>Lines 55-65: \<^verbatim>\<open>showData\<close>. \<^verbatim>\<open>show.date && new Date(show.date).toISOString()\<close> keeps a
  falsy date and throws on a date that does not parse.\<close>

definition prepare_show :: "js_runtime \<Rightarrow> show_input \<Rightarrow> string \<Rightarrow> show_data io" where
  "prepare_show rt s sid =
     bind (case sh_date s of
             None \<Rightarrow> ret None
           | Some d \<Rightarrow>
               if d = [] then ret (Some d)
               else (case date_toISOString rt d of
                       None \<Rightarrow> throw (Thrown ''RangeError: Invalid time value'')
                     | Some isoString \<Rightarrow> ret (Some isoString)))
       (\<lambda>date.
          ret \<lparr> sd_id = sid,
                sd_name = sh_name s,
                sd_artist_id = sh_artist_id s,
                sd_venue_id = sh_venue_id s,
                sd_date = date,
                sd_image_url = js_or (js_or (sh_image_url s) (sh_imageUrl s)) (sh_image s),
                sd_ticket_url = js_or (sh_ticket_url s) (sh_ticketUrl s),
                sd_genre_ids = (case sh_genre_ids s of Some g \<Rightarrow> g | None \<Rightarrow> []),
                sd_updated_at = now_iso rt \<rparr>)"

text \<open>Lines 67-101: the write. The test of \<^verbatim>\<open>error.code\<close> on line 75 chooses a log
  message only; the insert on lines 82-85 follows for every error.\<close>

definition write_show :: "show_store \<Rightarrow> show_data \<Rightarrow> show_result io" where
  "write_show st showData =
     try_catch
       (bind (await (Shows_upsert showData) (shows_upsert st showData))
          (\<lambda>r. case resp_error r of
                  Some err \<Rightarrow>
                    bind (await (Shows_insert showData) (shows_insert st showData))
                      (\<lambda>r2. case resp_error r2 of
                               Some insertError \<Rightarrow> ret (Show_record showData)
                             | None \<Rightarrow> ret (Show_record (row_or (resp_data r2) showData)))
                | None \<Rightarrow> ret (Show_record (row_or (resp_data r) showData))))
       (\<lambda>saveError. ret (Show_record showData))"

text \<open>Lines 8-106.\<close>

definition saveShowToDatabase ::
  "js_runtime \<Rightarrow> show_store \<Rightarrow> show_input option \<Rightarrow> show_result io" where
  "saveShowToDatabase rt st show =
     try_catch
       (case show of
          None \<Rightarrow> ret Null_show
        | Some s \<Rightarrow>
            (case sh_id s of
               None \<Rightarrow> ret Null_show
             | Some sid \<Rightarrow>
                 if sid = [] then ret Null_show
                 else
                   bind (check_existing_show rt st sid)
                     (\<lambda>early. case early of
                                 Some r \<Rightarrow> ret r
                               | None \<Rightarrow> bind (prepare_show rt s sid) (write_show st))))
       (\<lambda>error. ret (Original_show show))"

section \<open>The show page: \<^verbatim>\<open>useShowDetail\<close>\<close>

text \<open>An entry of the setlist; the hook reads its \<^verbatim>\<open>id\<close> only.\<close>

record song =
  song_id :: string
  song_votes :: int

text \<open>
  Lines 119-130: the memoised \<^verbatim>\<open>availableTracks\<close>. \<open>storedTracksData\<close> is an array (its
  default is \<^verbatim>\<open>[]\<close>), \<open>setlist\<close> may be absent (\<^verbatim>\<open>setlist || []\<close>), and
  \<open>getAvailableTracks\<close> is whatever \<^verbatim>\<open>useArtistTracks\<close> supplies, \<open>None\<close> when it is not
  a function.
\<close>

definition availableTracks ::
  "track list \<Rightarrow> song list option \<Rightarrow> (song list \<Rightarrow> track list) option \<Rightarrow> track list" where
  "availableTracks storedTracksData setlist getAvailableTracks =
     (let songs = (case setlist of None \<Rightarrow> [] | Some l \<Rightarrow> l) in
      if length storedTracksData > 0 then
        (let setlistIds = set (map song_id songs)
         in filter (\<lambda>track. track_id track \<notin> setlistIds) storedTracksData)
      else (case getAvailableTracks of
              Some f \<Rightarrow> f songs
            | None \<Rightarrow> []))"

text \<open>The stored tracks whose id is absent from the setlist, in the words of the
  specification.\<close>

definition absent_from_setlist :: "track list \<Rightarrow> song list \<Rightarrow> track list" where
  "absent_from_setlist stored songs =
     filter (\<lambda>track. track_id track \<notin> set (map song_id songs)) stored"

text \<open>
  Lines 133-151: \<^verbatim>\<open>handleAddSongClick\<close>. \<open>handleAddSong\<close> belongs to
  \<^verbatim>\<open>useSongManagement\<close> and is the only way this hook changes the setlist state \<open>'s\<close>;
  its argument \<^verbatim>\<open>{ tracks }\<close> is given as the track list. \<open>tracks\<close> is \<open>None\<close> when
  \<^verbatim>\<open>allTracksData.tracks\<close> is falsy.
\<close>

definition handleAddSongClick ::
  "(track list \<Rightarrow> 's \<Rightarrow> 's) \<Rightarrow> track list \<Rightarrow> track list option \<Rightarrow> string option \<Rightarrow>
   string option \<Rightarrow> 's \<Rightarrow> 's" where
  "handleAddSongClick handleAddSong storedTracksData tracks selectedTrack trackId st =
     (let trackToUse = js_or trackId selectedTrack in
      if \<not> truthy trackToUse then st
      else if length storedTracksData > 0 \<and>
              find (\<lambda>t. Some (track_id t) = trackToUse) storedTracksData \<noteq> None
           then handleAddSong storedTracksData st
      else (case tracks of
              Some ts \<Rightarrow> handleAddSong ts st
            | None \<Rightarrow> st))"

text \<open>The show object of the page, with the joined artist and venue.\<close>

record show_artist =
  sa_name :: "string option"

record show_venue =
  sv_name :: "string option"
  sv_city :: "string option"
  sv_state :: "string option"

record show_details =
  show_artist :: "show_artist option"
  show_venue :: "show_venue option"
  show_date :: "string option"

record document_metadata =
  md_title :: string
  md_description :: string

text \<open>\<^verbatim>\<open>s || fallback\<close> with a string literal on the right.\<close>

definition str_or :: "string option \<Rightarrow> string \<Rightarrow> string" where
  "str_or s fallback = (case s of None \<Rightarrow> fallback | Some x \<Rightarrow> if x = [] then fallback else x)"

text \<open>Lines 34-53: \<^verbatim>\<open>formattedDate\<close>.\<close>

definition formattedDate :: "js_runtime \<Rightarrow> string option \<Rightarrow> string io" where
  "formattedDate rt date =
     (case date of
        None \<Rightarrow> ret ''TBD''
      | Some d \<Rightarrow>
          if d = [] then ret ''TBD''
          else
            try_catch
              (case date_getTime rt d of
                 None \<Rightarrow> ret ''TBD''
               | Some ms \<Rightarrow> (date_toLocaleDateString rt d, []))
              (\<lambda>dateError. ret ''TBD''))"

text \<open>Lines 28-32.\<close>

definition venueLocation :: "show_details \<Rightarrow> string" where
  "venueLocation s =
     (let venueCity = str_or (case show_venue s of None \<Rightarrow> None | Some v \<Rightarrow> sv_city v) [];
          venueState = str_or (case show_venue s of None \<Rightarrow> None | Some v \<Rightarrow> sv_state v) []
      in if venueCity \<noteq> [] \<and> venueState \<noteq> [] then venueCity @ '', '' @ venueState
         else if venueCity \<noteq> [] then venueCity
         else if venueState \<noteq> [] then venueState
         else ''Location'')"

definition artistName :: "show_details \<Rightarrow> string" where
  "artistName s = str_or (case show_artist s of None \<Rightarrow> None | Some a \<Rightarrow> sa_name a) ''Artist''"

definition venueName :: "show_details \<Rightarrow> string" where
  "venueName s = str_or (case show_venue s of None \<Rightarrow> None | Some v \<Rightarrow> sv_name v) ''Venue''"

text \<open>Lines 55-56: the two template strings.\<close>

definition title_of :: "show_details \<Rightarrow> string \<Rightarrow> string" where
  "title_of s date =
     ''TheSet | '' @ artistName s @ '' at '' @ venueName s @ '' in '' @ venueLocation s @
     '' | '' @ date"

definition description_of :: "show_details \<Rightarrow> string \<Rightarrow> string" where
  "description_of s date =
     ''Vote on '' @ artistName s @ [CHR 0x27] @ ''s setlist for their show at '' @ venueName s @
     '' in '' @ venueLocation s @ '' on '' @ date @
     ''. Influence what songs they'' @ [CHR 0x27] @ ''ll play live!''"

text \<open>
  Lines 25-70: the effect that sets the document metadata. The result is the new value of
  the \<^verbatim>\<open>documentMetadata\<close> state, which stays \<open>current\<close> while the show is absent or
  loading.
\<close>

definition documentMetadata_effect ::
  "js_runtime \<Rightarrow> show_details option \<Rightarrow> bool \<Rightarrow> document_metadata \<Rightarrow> document_metadata io" where
  "documentMetadata_effect rt show isLoadingShow current =
     (case show of
        None \<Rightarrow> ret current
      | Some s \<Rightarrow>
          if isLoadingShow then ret current
          else
            try_catch
              (bind (formattedDate rt (show_date s))
                 (\<lambda>date. ret \<lparr> md_title = title_of s date,
                                md_description = description_of s date \<rparr>))
              (\<lambda>error. ret \<lparr> md_title = ''Show Details | TheSet'',
                              md_description =
                                ''Vote on setlists for upcoming concerts and shows on TheSet.'' \<rparr>))"

section \<open>Concrete inputs\<close>

definition example_runtime :: js_runtime where
  "example_runtime =
     \<lparr> date_getTime = (\<lambda>s. if s = ''2024-05-01T00:00:00.000Z'' then Some 1714521600000 else None),
       date_toISOString = (\<lambda>s. if s = ''2024-05-01'' then Some ''2024-05-01T00:00:00.000Z'' else None),
       date_toLocaleDateString = (\<lambda>s. Inr ''Wed, May 1, 2024''),
       now_ms = 1714525200000,
       now_iso = ''2024-05-01T01:00:00.000Z'' \<rparr>"

definition example_track :: track where
  "example_track = \<lparr> track_id = ''t1'', track_name = ''Opening Song'' \<rparr>"

definition artist_store_of ::
  "exn + existing_artist response \<Rightarrow> exn + artist_data list response \<Rightarrow>
   exn + artist_data list response \<Rightarrow> artist_store" where
  "artist_store_of sel ups ins =
     \<lparr> artists_select = (\<lambda>_. sel), artists_upsert = (\<lambda>_. ups), artists_insert = (\<lambda>_. ins) \<rparr>"

definition show_store_of ::
  "exn + existing_show response \<Rightarrow> exn + show_data list response \<Rightarrow>
   exn + show_data list response \<Rightarrow> show_store" where
  "show_store_of sel ups ins =
     \<lparr> shows_select = (\<lambda>_. sel), shows_upsert = (\<lambda>_. ups), shows_insert = (\<lambda>_. ins) \<rparr>"

definition catalog_env_of ::
  "exn + track list option \<Rightarrow> exn + tracks_data option \<Rightarrow> exn + unit \<Rightarrow>
   exn + store_error option \<Rightarrow> catalog_env" where
  "catalog_env_of stored fetched written updated =
     \<lparr> getStoredTracksForArtist = (\<lambda>_. stored),
       getArtistAllTracks = (\<lambda>_. fetched),
       updateArtistStoredTracks = (\<lambda>_ _. written),
       artists_update = (\<lambda>_ _. updated),
       catalog_now_iso = ''2024-05-01T01:00:00.000Z'' \<rparr>"

definition no_row :: "'r response" where
  "no_row = \<lparr> resp_data = None, resp_error = None \<rparr>"

definition failed :: "string \<Rightarrow> string \<Rightarrow> 'r response" where
  "failed c m = \<lparr> resp_data = None, resp_error = Some \<lparr> err_code = c, err_message = m \<rparr> \<rparr>"

definition example_show :: show_input where
  "example_show =
     \<lparr> sh_id = Some ''show-1'', sh_name = Some ''Spring Tour'', sh_artist_id = Some ''artist-1'',
       sh_venue_id = Some ''venue-1'', sh_date = Some ''2024-05-01'', sh_image_url = None,
       sh_imageUrl = None, sh_image = None, sh_ticket_url = None, sh_ticketUrl = None,
       sh_genre_ids = None \<rparr>"

definition example_show_data :: show_data where
  "example_show_data =
     \<lparr> sd_id = ''show-1'', sd_name = Some ''Spring Tour'', sd_artist_id = Some ''artist-1'',
       sd_venue_id = Some ''venue-1'', sd_date = Some ''2024-05-01T00:00:00.000Z'',
       sd_image_url = None, sd_ticket_url = None, sd_genre_ids = [],
       sd_updated_at = ''2024-05-01T01:00:00.000Z'' \<rparr>"

definition inserted_show_row :: show_data where
  "inserted_show_row = example_show_data \<lparr> sd_updated_at := ''2024-05-01T01:00:00.123Z'' \<rparr>"

text \<open>A store with no row for the show, whose upsert fails with a unique-violation error
  (not a permission error) and whose insert succeeds.\<close>

definition upsert_conflict_store :: show_store where
  "upsert_conflict_store =
     show_store_of (Inr no_row)
       (Inr (failed ''23505'' ''duplicate key value violates unique constraint''))
       (Inr \<lparr> resp_data = Some [inserted_show_row], resp_error = None \<rparr>)"

definition example_artist :: artist where
  "example_artist =
     \<lparr> art_id = Some ''artist-1'', art_name = Some ''The Band'', art_image = None,
       art_image_url = None, art_genres = Some [''rock''], art_popularity = Some 50,
       art_upcomingShows = None, art_upcoming_shows = Some 2, art_spotify_id = Some ''X123'',
       art_stored_tracks = None \<rparr>"

definition example_artist_data :: artist_data where
  "example_artist_data =
     \<lparr> ad_id = ''artist-1'', ad_name = Some ''The Band'', ad_image_url = None,
       ad_genres = [''rock''], ad_popularity = 50, ad_upcoming_shows = 2,
       ad_spotify_id = Some ''X123'', ad_updated_at = ''2024-05-01T01:00:00.000Z'',
       ad_stored_tracks = None \<rparr>"

definition fresh_show_row :: existing_show where
  "fresh_show_row = \<lparr> es_id = ''show-1'', es_updated_at = Some ''2024-05-01T00:00:00.000Z'' \<rparr>"

definition fresh_artist_row :: existing_artist where
  "fresh_artist_row =
     \<lparr> ea_id = ''artist-1'', ea_updated_at = Some ''2024-05-01T00:00:00.000Z'',
       ea_stored_tracks = Some [example_track], ea_spotify_id = Some ''X123'',
       ea_upcoming_shows = Some 2 \<rparr>"

definition bare_artist_row :: existing_artist where
  "bare_artist_row = fresh_artist_row \<lparr> ea_stored_tracks := None \<rparr>"

definition example_show_details :: show_details where
  "example_show_details =
     \<lparr> show_artist = Some \<lparr> sa_name = Some ''The Band'' \<rparr>,
       show_venue = Some \<lparr> sv_name = Some ''Town Hall'', sv_city = Some ''Austin'', sv_state = Some ''TX'' \<rparr>,
       show_date = None \<rparr>"

definition empty_metadata :: document_metadata where
  "empty_metadata = \<lparr> md_title = [], md_description = [] \<rparr>"

text \<open>A fallback \<^verbatim>\<open>getAvailableTracks\<close> that offers one track, and an add-song operation
  that records the argument of every invocation.\<close>

text \<open>Catalog environments: one that holds a stored snapshot, one whose catalog has no
  tracks for the artist, and one whose catalog has a track while the store rejects the
  write by throwing.\<close>

definition env_with_snapshot :: catalog_env where
  "env_with_snapshot =
     catalog_env_of (Inr (Some [example_track])) (Inl (Thrown ''catalog unavailable''))
       (Inr ()) (Inr None)"

definition env_empty_catalog :: catalog_env where
  "env_empty_catalog =
     catalog_env_of (Inr None) (Inr (Some \<lparr> td_tracks = Some [] \<rparr>)) (Inr ()) (Inr None)"

definition env_write_fails :: catalog_env where
  "env_write_fails =
     catalog_env_of (Inr (Some [])) (Inr (Some \<lparr> td_tracks = Some [example_track] \<rparr>))
       (Inl (Thrown ''permission denied for table artists'')) (Inr None)"

definition example_fallback :: "song list \<Rightarrow> track list" where
  "example_fallback songs = [example_track]"

definition record_call :: "track list \<Rightarrow> track list list \<Rightarrow> track list list" where
  "record_call ts calls = calls @ [ts]"

text \<open>Where a returned record can come from: the row a lookup found, or the first row a
  write returned.\<close>

definition returned_by_lookup :: "exn + 'r response \<Rightarrow> 'r \<Rightarrow> bool" where
  "returned_by_lookup outcome row =
     (case outcome of Inl e \<Rightarrow> False | Inr r \<Rightarrow> resp_data r = Some row)"

definition returned_by_write :: "exn + 'r list response \<Rightarrow> 'r \<Rightarrow> bool" where
  "returned_by_write outcome row =
     (case outcome of
        Inl e \<Rightarrow> False
      | Inr r \<Rightarrow> (case resp_data r of Some (x # xs) \<Rightarrow> x = row | _ \<Rightarrow> False))"

text \<open>
  The values the two save functions may hand back, in the words of the specification:
  \<^verbatim>\<open>null\<close> for an argument without an id, the existing row, the persisted row or the
  prepared in-memory record, or the original argument.
\<close>

definition artist_result_origin ::
  "js_runtime \<Rightarrow> artist_store \<Rightarrow> artist option \<Rightarrow> artist_result \<Rightarrow> bool" where
  "artist_result_origin rt st artist v =
     (case v of
        Null_artist \<Rightarrow> (case artist of None \<Rightarrow> True | Some a \<Rightarrow> \<not> truthy (art_id a))
      | Original_artist x \<Rightarrow> x = artist
      | Existing_artist row \<Rightarrow>
          (case artist of
             None \<Rightarrow> False
           | Some a \<Rightarrow>
               (case art_id a of
                  None \<Rightarrow> False
                | Some aid \<Rightarrow> returned_by_lookup (artists_select st aid) row))
      | Artist_record d \<Rightarrow>
          (case artist of
             None \<Rightarrow> False
           | Some a \<Rightarrow>
               (case art_id a of
                  None \<Rightarrow> False
                | Some aid \<Rightarrow>
                    d = prepare_artist rt a aid \<or>
                    returned_by_write (artists_upsert st (prepare_artist rt a aid)) d \<or>
                    returned_by_write (artists_insert st (prepare_artist rt a aid)) d)))"

definition show_result_origin ::
  "js_runtime \<Rightarrow> show_store \<Rightarrow> show_input option \<Rightarrow> show_result \<Rightarrow> bool" where
  "show_result_origin rt st show v =
     (case v of
        Null_show \<Rightarrow> (case show of None \<Rightarrow> True | Some s \<Rightarrow> \<not> truthy (sh_id s))
      | Original_show x \<Rightarrow> x = show
      | Existing_show row \<Rightarrow>
          (case show of
             None \<Rightarrow> False
           | Some s \<Rightarrow>
               (case sh_id s of
                  None \<Rightarrow> False
                | Some sid \<Rightarrow> returned_by_lookup (shows_select st sid) row))
      | Show_record d \<Rightarrow>
          (case show of
             None \<Rightarrow> False
           | Some s \<Rightarrow>
               (case sh_id s of
                  None \<Rightarrow> False
                | Some sid \<Rightarrow>
                    (case fst (prepare_show rt s sid) of
                       Inl e \<Rightarrow> False
                     | Inr showData \<Rightarrow>
                         d = showData \<or>
                         returned_by_write (shows_upsert st showData) d \<or>
                         returned_by_write (shows_insert st showData) d))))"

text \<open>Stores for the examples: one that holds a fresh row for the show, one that holds a
  fresh and complete row for the artist, one that holds an artist row without a track
  catalog and accepts the upsert, and two on which every call throws.\<close>

definition found :: "'r \<Rightarrow> 'r response" where
  "found row = \<lparr> resp_data = Some row, resp_error = None \<rparr>"

definition fresh_show_store :: show_store where
  "fresh_show_store =
     show_store_of (Inr (found fresh_show_row)) (Inl (Thrown ''unused'')) (Inl (Thrown ''unused''))"

definition fresh_artist_store :: artist_store where
  "fresh_artist_store =
     artist_store_of (Inr (found fresh_artist_row)) (Inl (Thrown ''unused''))
       (Inl (Thrown ''unused''))"

definition bare_artist_store :: artist_store where
  "bare_artist_store =
     artist_store_of (Inr (found bare_artist_row)) (Inr no_row) (Inl (Thrown ''unused''))"

definition broken_artist_store :: artist_store where
  "broken_artist_store =
     artist_store_of (Inl (Thrown ''network'')) (Inl (Thrown ''network''))
       (Inl (Thrown ''network''))"

definition broken_show_store :: show_store where
  "broken_show_store =
     show_store_of (Inl (Thrown ''network'')) (Inl (Thrown ''network''))
       (Inl (Thrown ''network''))"


text \<open>A show whose date does not parse.\<close>

definition undated_show :: show_input where
  "undated_show = example_show \<lparr> sh_date := Some ''soon'' \<rparr>"





section \<open>Rules for running computations\<close>

lemma bind_Inr: "bind (Inr x, t) f = (fst (f x), t @ snd (f x))"
  by (simp add: bind_def split: prod.splits)

lemma bind_Inl: "bind (Inl e, t) f = (Inl e, t)"
  by (simp add: bind_def)

lemma try_catch_Inr: "try_catch (Inr x, t) h = (Inr x, t)"
  by (simp add: try_catch_def)

lemma try_catch_Inl: "try_catch (Inl e, t) h = (fst (h e), t @ snd (h e))"
  by (simp add: try_catch_def split: prod.splits)

lemmas io_simps = bind_Inr bind_Inl try_catch_Inr try_catch_Inl ret_def await_def throw_def
  result_def trace_def

lemmas js_simps = truthy_def js_or_def num_or_0_def truthy_num_def js_or_num_def row_or_def
  str_or_def

lemmas example_simps = example_runtime_def example_track_def artist_store_of_def
  show_store_of_def catalog_env_of_def no_row_def failed_def found_def example_show_def
  example_show_data_def example_artist_def example_artist_data_def fresh_show_row_def
  fresh_artist_row_def bare_artist_row_def

lemma try_catch_total:
  assumes "\<And>e. \<exists>v. fst (h e) = Inr v"
  shows "\<exists>v. fst (try_catch m h) = Inr v"
proof (cases m)
  case (Pair r t)
  show ?thesis
  proof (cases r)
    case (Inl e)
    from assms obtain v where "fst (h e) = Inr v" by blast
    with Pair Inl show ?thesis by (simp add: try_catch_Inl)
  next
    case (Inr x)
    with Pair show ?thesis by (simp add: try_catch_Inr)
  qed
qed

section \<open>The write protocol\<close>

lemma example_show_prepared:
  "prepare_show example_runtime example_show ''show-1'' = (Inr example_show_data, [])"
  by (simp add: prepare_show_def example_runtime_def example_show_def example_show_data_def
        io_simps js_simps)

lemma example_show_not_found:
  "check_existing_show example_runtime upsert_conflict_store ''show-1'' =
     (Inr None, [Shows_select ''show-1''])"
  by (simp add: check_existing_show_def upsert_conflict_store_def show_store_of_def no_row_def
        io_simps)

lemma example_show_written:
  "write_show upsert_conflict_store example_show_data =
     (Inr (Show_record inserted_show_row),
      [Shows_upsert example_show_data, Shows_insert example_show_data])"
  by (simp add: write_show_def upsert_conflict_store_def show_store_of_def failed_def
        io_simps js_simps)

lemma unique_violation_not_permission:
  "\<not> is_permission_error
       \<lparr> err_code = ''23505'',
         err_message = ''duplicate key value violates unique constraint'' \<rparr>"
  by (simp add: is_permission_error_def sublist_code prefix_code)

text \<open>
  The artist write follows the protocol: after an upsert error that is not a permission
  error, the prepared record is returned and no insert is attempted.
\<close>

lemma write_artist_other_error:
  assumes "artists_upsert st artistData = Inr r" and "resp_error r = Some err"
    and "\<not> is_permission_error err"
  shows "write_artist st a aid artistData =
           (Inr (Artist_record artistData), [Artists_upsert artistData])"
  using assms by (simp add: write_artist_def io_simps)

text \<open>
  C1. The write protocol asks for the insert-only retry after a permission-denied failure
  only, and for the prepared record without a retry after any other failure.
  \<^verbatim>\<open>saveShowToDatabase\<close> retries after every failure: for a show that has no row yet, an
  upsert that fails with the unique-violation error 23505 is followed by an insert, and
  the row the insert returns is the result, not the prepared record.
\<close>

theorem saveShowToDatabase_retries_after_any_error:
  "saveShowToDatabase example_runtime upsert_conflict_store (Some example_show) =
     (Inr (Show_record inserted_show_row),
      [Shows_select ''show-1'', Shows_upsert example_show_data, Shows_insert example_show_data])
   \<and> shows_upsert upsert_conflict_store example_show_data =
       Inr (failed ''23505'' ''duplicate key value violates unique constraint'')
   \<and> \<not> is_permission_error
         \<lparr> err_code = ''23505'',
           err_message = ''duplicate key value violates unique constraint'' \<rparr>
   \<and> inserted_show_row \<noteq> example_show_data"
proof -
  have id: "sh_id example_show = Some ''show-1''"
    by (simp add: example_show_def)
  have run: "saveShowToDatabase example_runtime upsert_conflict_store (Some example_show) =
     (Inr (Show_record inserted_show_row),
      [Shows_select ''show-1'', Shows_upsert example_show_data, Shows_insert example_show_data])"
    by (simp add: saveShowToDatabase_def id example_show_not_found example_show_prepared
          example_show_written io_simps)
  have ups: "shows_upsert upsert_conflict_store example_show_data =
       Inr (failed ''23505'' ''duplicate key value violates unique constraint'')"
    by (simp add: upsert_conflict_store_def show_store_of_def)
  have diff: "inserted_show_row \<noteq> example_show_data"
    by (simp add: inserted_show_row_def example_show_data_def)
  from run ups diff unique_violation_not_permission show ?thesis
    by simp
qed

section \<open>The track catalog\<close>

lemma store_tracks_result: "fst (store_tracks env artistId ts) = Inr (Some ts)"
  by (cases "updateArtistStoredTracks env artistId ts";
      cases "artists_update env artistId
               \<lparr> au_tracks_last_updated = catalog_now_iso env,
                 au_updated_at = catalog_now_iso env, au_stored_tracks = ts \<rparr>")
     (simp_all add: store_tracks_def Let_def io_simps)

lemma store_tracks_first_event:
  "\<exists>es. snd (store_tracks env artistId ts) = Call_updateArtistStoredTracks artistId ts # es"
  by (cases "updateArtistStoredTracks env artistId ts";
      cases "artists_update env artistId
               \<lparr> au_tracks_last_updated = catalog_now_iso env,
                 au_updated_at = catalog_now_iso env, au_stored_tracks = ts \<rparr>")
     (simp_all add: store_tracks_def Let_def io_simps)

text \<open>
  C3. When the store holds a non-empty track snapshot for the artist,
  \<^verbatim>\<open>fetchAndStoreArtistTracks\<close> returns that snapshot after the one lookup and never calls
  the external catalog (\<^verbatim>\<open>getArtistAllTracks\<close>), whatever the catalog id.
\<close>

theorem dedup_guard_skips_catalog:
  assumes "getStoredTracksForArtist env artistId = Inr (Some snapshot)" and "snapshot \<noteq> []"
  shows "result (fetchAndStoreArtistTracks env artistId spotifyId name) = Inr (Some snapshot)
       \<and> trace (fetchAndStoreArtistTracks env artistId spotifyId name) =
           [Call_getStoredTracksForArtist artistId]
       \<and> Call_getArtistAllTracks anyId \<notin>
           set (trace (fetchAndStoreArtistTracks env artistId spotifyId name))"
  using assms
  by (cases snapshot) (simp_all add: fetchAndStoreArtistTracks_def io_simps)

theorem dedup_guard_skips_catalog_witness:
  "getStoredTracksForArtist env_with_snapshot ''artist-1'' = Inr (Some [example_track])
   \<and> [example_track] \<noteq> []
   \<and> result (fetchAndStoreArtistTracks env_with_snapshot ''artist-1'' ''X123'' (Some ''The Band''))
       = Inr (Some [example_track])
   \<and> trace (fetchAndStoreArtistTracks env_with_snapshot ''artist-1'' ''X123'' (Some ''The Band''))
       = [Call_getStoredTracksForArtist ''artist-1'']
   \<and> Call_getArtistAllTracks ''X123'' \<notin>
       set (trace (fetchAndStoreArtistTracks env_with_snapshot ''artist-1'' ''X123''
                     (Some ''The Band'')))"
proof -
  have stored: "getStoredTracksForArtist env_with_snapshot ''artist-1'' = Inr (Some [example_track])"
    by (simp add: env_with_snapshot_def catalog_env_of_def)
  have nonempty: "[example_track] \<noteq> []"
    by simp
  from dedup_guard_skips_catalog [OF stored nonempty, of "''X123''" "Some ''The Band''" "''X123''"]
    stored nonempty
  show ?thesis by simp
qed

text \<open>
  C6. When the external catalog returns no tracks (no result, no track list, or an empty
  one), \<^verbatim>\<open>fetchAndStoreArtistTracks\<close> performs no store write, and whenever the catalog
  was asked the function returns \<^verbatim>\<open>null\<close>.
\<close>

theorem no_tracks_no_write:
  assumes "getArtistAllTracks env spotifyId = Inr tracksData" and "no_tracks tracksData"
  shows "filter is_write (trace (fetchAndStoreArtistTracks env artistId spotifyId name)) = []
       \<and> (Call_getArtistAllTracks spotifyId \<in>
            set (trace (fetchAndStoreArtistTracks env artistId spotifyId name))
          \<longrightarrow> result (fetchAndStoreArtistTracks env artistId spotifyId name) = Inr None)"
  using assms
  by (cases "getStoredTracksForArtist env artistId")
     (auto simp add: fetchAndStoreArtistTracks_def io_simps no_tracks_def
        split: option.splits list.splits)

theorem no_tracks_no_write_witness:
  "getArtistAllTracks env_empty_catalog ''X123'' = Inr (Some \<lparr> td_tracks = Some [] \<rparr>)
   \<and> no_tracks (Some \<lparr> td_tracks = Some [] \<rparr>)
   \<and> Call_getArtistAllTracks ''X123'' \<in>
       set (trace (fetchAndStoreArtistTracks env_empty_catalog ''artist-1'' ''X123''
                     (Some ''The Band'')))
   \<and> filter is_write
       (trace (fetchAndStoreArtistTracks env_empty_catalog ''artist-1'' ''X123''
                 (Some ''The Band''))) = []
   \<and> result (fetchAndStoreArtistTracks env_empty_catalog ''artist-1'' ''X123'' (Some ''The Band''))
       = Inr None"
proof -
  have fetched: "getArtistAllTracks env_empty_catalog ''X123'' = Inr (Some \<lparr> td_tracks = Some [] \<rparr>)"
    by (simp add: env_empty_catalog_def catalog_env_of_def)
  have none: "no_tracks (Some \<lparr> td_tracks = Some [] \<rparr>)"
    by (simp add: no_tracks_def)
  have asked: "Call_getArtistAllTracks ''X123'' \<in>
       set (trace (fetchAndStoreArtistTracks env_empty_catalog ''artist-1'' ''X123''
                     (Some ''The Band'')))"
    by (simp add: fetchAndStoreArtistTracks_def env_empty_catalog_def catalog_env_of_def io_simps)
  from no_tracks_no_write [OF fetched none, of "''artist-1''" "Some ''The Band''"] fetched none asked
  show ?thesis by simp
qed

text \<open>
  C7. When no non-empty snapshot is stored and the external catalog returns a non-empty
  track list, \<^verbatim>\<open>fetchAndStoreArtistTracks\<close> attempts the write and returns the fetched
  tracks whatever the two writes do: also when one of them throws or the update resolves
  to an error.
\<close>

theorem fetched_tracks_survive_write_failure:
  assumes "getStoredTracksForArtist env artistId = Inr existing"
    and "existing = None \<or> existing = Some []"
    and "getArtistAllTracks env spotifyId = Inr (Some td)"
    and "td_tracks td = Some ts" and "ts \<noteq> []"
  shows "result (fetchAndStoreArtistTracks env artistId spotifyId name) = Inr (Some ts)
       \<and> Call_updateArtistStoredTracks artistId ts \<in>
           set (trace (fetchAndStoreArtistTracks env artistId spotifyId name))"
proof -
  obtain t ts' where ts: "ts = t # ts'"
    using assms(5) by (cases ts) auto
  obtain r es where run: "store_tracks env artistId ts = (r, es)"
    by (cases "store_tracks env artistId ts")
  from run store_tracks_result [of env artistId ts] have r: "r = Inr (Some ts)"
    by simp
  from run store_tracks_first_event [of env artistId ts]
  have es: "Call_updateArtistStoredTracks artistId ts \<in> set es"
    by auto
  from assms(2) show ?thesis
  proof
    assume "existing = None"
    with assms(1,3,4) ts run r es show ?thesis
      by (simp add: fetchAndStoreArtistTracks_def io_simps)
  next
    assume "existing = Some []"
    with assms(1,3,4) ts run r es show ?thesis
      by (simp add: fetchAndStoreArtistTracks_def io_simps)
  qed
qed

theorem fetched_tracks_survive_write_failure_witness:
  "getStoredTracksForArtist env_write_fails ''artist-1'' = Inr (Some [])
   \<and> getArtistAllTracks env_write_fails ''X123'' = Inr (Some \<lparr> td_tracks = Some [example_track] \<rparr>)
   \<and> updateArtistStoredTracks env_write_fails ''artist-1'' [example_track] =
       Inl (Thrown ''permission denied for table artists'')
   \<and> result (fetchAndStoreArtistTracks env_write_fails ''artist-1'' ''X123'' (Some ''The Band''))
       = Inr (Some [example_track])
   \<and> Call_updateArtistStoredTracks ''artist-1'' [example_track] \<in>
       set (trace (fetchAndStoreArtistTracks env_write_fails ''artist-1'' ''X123''
                     (Some ''The Band'')))"
proof -
  have stored: "getStoredTracksForArtist env_write_fails ''artist-1'' = Inr (Some [])"
    by (simp add: env_write_fails_def catalog_env_of_def)
  have empty: "Some [] = None \<or> Some ([] :: track list) = Some []"
    by simp
  have fetched: "getArtistAllTracks env_write_fails ''X123'' =
      Inr (Some \<lparr> td_tracks = Some [example_track] \<rparr>)"
    by (simp add: env_write_fails_def catalog_env_of_def)
  have tracks: "td_tracks \<lparr> td_tracks = Some [example_track] \<rparr> = Some [example_track]"
    by simp
  have nonempty: "[example_track] \<noteq> []"
    by simp
  have thrown: "updateArtistStoredTracks env_write_fails ''artist-1'' [example_track] =
       Inl (Thrown ''permission denied for table artists'')"
    by (simp add: env_write_fails_def catalog_env_of_def)
  from fetched_tracks_survive_write_failure
         [OF stored empty fetched tracks nonempty, of "Some ''The Band''"]
       stored fetched thrown
  show ?thesis by simp
qed

section \<open>Freshness\<close>

lemma hours_fresh: "(real_of_int d / (1000 * 60 * 60) < 24) = (d < 24 * 60 * 60 * 1000)"
  by (simp add: field_simps)

lemma days_stale: "(real_of_int d / (1000 * 60 * 60 * 24) > 7) = (d > 7 * 24 * 60 * 60 * 1000)"
  by (simp add: field_simps)

lemma check_show_fresh:
  assumes "shows_select st sid = Inr r" and "resp_data r = Some dbShow"
    and "lastUpdated_ms rt (es_updated_at dbShow) = Some t"
    and "now_ms rt - t < 24 * 60 * 60 * 1000"
  shows "check_existing_show rt st sid = (Inr (Some (Existing_show dbShow)), [Shows_select sid])"
  using assms
  by (simp add: check_existing_show_def hoursSinceUpdate_def hours_fresh io_simps)

lemma check_artist_fresh:
  assumes "artists_select st aid = Inr r" and "resp_data r = Some row"
    and "lastUpdated_ms rt (ea_updated_at row) = Some t"
    and "now_ms rt - t < 7 * 24 * 60 * 60 * 1000"
    and "ea_stored_tracks row \<noteq> None" and "\<not> offers_new_data a row"
  shows "check_existing_artist rt st a aid =
           (Inr (Some (Existing_artist row)), [Artists_select aid])"
  using assms
  by (simp add: check_existing_artist_def needsUpdate_def daysSinceUpdate_def days_stale io_simps)

lemma check_artist_no_catalog:
  assumes "artists_select st aid = Inr r" and "resp_data r = Some row"
    and "ea_stored_tracks row = None"
  shows "check_existing_artist rt st a aid = (Inr None, [Artists_select aid])"
  using assms
  by (simp add: check_existing_artist_def needsUpdate_def io_simps)

lemma write_artist_first_event:
  "\<exists>es. snd (write_artist st a aid d) = Artists_upsert d # es"
  by (cases "artists_upsert st d"; cases "artists_insert st d")
     (auto simp add: write_artist_def io_simps Let_def split: option.splits)

lemma save_show_fresh:
  assumes "sh_id s = Some sid" and "sid \<noteq> []"
    and "shows_select st sid = Inr r" and "resp_data r = Some dbShow"
    and "lastUpdated_ms rt (es_updated_at dbShow) = Some t"
    and "now_ms rt - t < 24 * 60 * 60 * 1000"
  shows "saveShowToDatabase rt st (Some s) = (Inr (Existing_show dbShow), [Shows_select sid])"
  using assms(1,2) check_show_fresh [OF assms(3-6)]
  by (simp add: saveShowToDatabase_def io_simps)

lemma save_artist_fresh:
  assumes "art_id a = Some aid" and "aid \<noteq> []"
    and "artists_select st aid = Inr r" and "resp_data r = Some row"
    and "lastUpdated_ms rt (ea_updated_at row) = Some t"
    and "now_ms rt - t < 7 * 24 * 60 * 60 * 1000"
    and "ea_stored_tracks row \<noteq> None" and "\<not> offers_new_data a row"
  shows "saveArtistToDatabase rt st (Some a) = (Inr (Existing_artist row), [Artists_select aid])"
  using assms(1,2) check_artist_fresh [OF assms(3-8)]
  by (simp add: saveArtistToDatabase_def io_simps)

lemma save_artist_no_catalog:
  assumes "art_id a = Some aid" and "aid \<noteq> []"
    and "artists_select st aid = Inr r" and "resp_data r = Some row"
    and "ea_stored_tracks row = None"
  shows "take 2 (trace (saveArtistToDatabase rt st (Some a))) =
           [Artists_select aid, Artists_upsert (prepare_artist rt a aid)]"
proof -
  obtain w es where w: "write_artist st a aid (prepare_artist rt a aid) = (w, es)"
    by (cases "write_artist st a aid (prepare_artist rt a aid)")
  with write_artist_first_event [of st a aid "prepare_artist rt a aid"]
  obtain es' where es: "es = Artists_upsert (prepare_artist rt a aid) # es'"
    by auto
  show ?thesis
    using assms(1,2) check_artist_no_catalog [OF assms(3-5), of rt a] w es
    by (cases w) (simp_all add: saveArtistToDatabase_def io_simps)
qed

text \<open>
  C4. A show whose row was updated less than 24 hours ago is returned as it is, after the
  lookup alone. So is an artist whose row was updated less than 7 days ago, carries a
  stored track catalog and is offered no new data. An artist whose row has no stored
  track catalog is written again, whatever the age of the row: the upsert of the prepared
  record follows the lookup.
\<close>

theorem fresh_records_are_not_rewritten:
  "(sh_id s = Some sid \<and> sid \<noteq> [] \<and> shows_select sst sid = Inr sr \<and> resp_data sr = Some dbShow
      \<and> lastUpdated_ms rt (es_updated_at dbShow) = Some t
      \<and> now_ms rt - t < 24 * 60 * 60 * 1000
    \<longrightarrow> saveShowToDatabase rt sst (Some s) = (Inr (Existing_show dbShow), [Shows_select sid]))
   \<and> (art_id a = Some aid \<and> aid \<noteq> [] \<and> artists_select ast aid = Inr ar
      \<and> resp_data ar = Some row \<and> lastUpdated_ms rt (ea_updated_at row) = Some t'
      \<and> now_ms rt - t' < 7 * 24 * 60 * 60 * 1000
      \<and> ea_stored_tracks row \<noteq> None \<and> \<not> offers_new_data a row
    \<longrightarrow> saveArtistToDatabase rt ast (Some a) =
          (Inr (Existing_artist row), [Artists_select aid]))
   \<and> (art_id b = Some bid \<and> bid \<noteq> [] \<and> artists_select bst bid = Inr br
      \<and> resp_data br = Some bare \<and> ea_stored_tracks bare = None
    \<longrightarrow> take 2 (trace (saveArtistToDatabase rt' bst (Some b))) =
          [Artists_select bid, Artists_upsert (prepare_artist rt' b bid)])"
  using save_show_fresh [of s sid sst sr dbShow rt t]
    save_artist_fresh [of a aid ast ar row rt t']
    save_artist_no_catalog [of b bid bst br bare rt']
  by blast

theorem fresh_records_are_not_rewritten_witness:
  "saveShowToDatabase example_runtime fresh_show_store (Some example_show) =
     (Inr (Existing_show fresh_show_row), [Shows_select ''show-1''])
   \<and> saveArtistToDatabase example_runtime fresh_artist_store (Some example_artist) =
     (Inr (Existing_artist fresh_artist_row), [Artists_select ''artist-1''])
   \<and> take 2 (trace (saveArtistToDatabase example_runtime bare_artist_store (Some example_artist))) =
     [Artists_select ''artist-1'', Artists_upsert example_artist_data]"
proof -
  have show_hyps: "sh_id example_show = Some ''show-1'' \<and> ''show-1'' \<noteq> []
      \<and> shows_select fresh_show_store ''show-1'' = Inr (found fresh_show_row)
      \<and> resp_data (found fresh_show_row) = Some fresh_show_row
      \<and> lastUpdated_ms example_runtime (es_updated_at fresh_show_row) = Some 1714521600000
      \<and> now_ms example_runtime - 1714521600000 < 24 * 60 * 60 * 1000"
    by (simp add: example_simps fresh_show_store_def lastUpdated_ms_def)
  have artist_hyps: "art_id example_artist = Some ''artist-1'' \<and> ''artist-1'' \<noteq> []
      \<and> artists_select fresh_artist_store ''artist-1'' = Inr (found fresh_artist_row)
      \<and> resp_data (found fresh_artist_row) = Some fresh_artist_row
      \<and> lastUpdated_ms example_runtime (ea_updated_at fresh_artist_row) = Some 1714521600000
      \<and> now_ms example_runtime - 1714521600000 < 7 * 24 * 60 * 60 * 1000
      \<and> ea_stored_tracks fresh_artist_row \<noteq> None
      \<and> \<not> offers_new_data example_artist fresh_artist_row"
    by (simp add: example_simps fresh_artist_store_def lastUpdated_ms_def offers_new_data_def
          js_simps)
  have bare_hyps: "art_id example_artist = Some ''artist-1'' \<and> ''artist-1'' \<noteq> []
      \<and> artists_select bare_artist_store ''artist-1'' = Inr (found bare_artist_row)
      \<and> resp_data (found bare_artist_row) = Some bare_artist_row
      \<and> ea_stored_tracks bare_artist_row = None"
    by (simp add: example_simps bare_artist_store_def)
  have prepared: "prepare_artist example_runtime example_artist ''artist-1'' = example_artist_data"
    by (simp add: prepare_artist_def example_simps js_simps)
  from fresh_records_are_not_rewritten
         [where s = example_show and sid = "''show-1''" and sst = fresh_show_store
            and sr = "found fresh_show_row" and dbShow = fresh_show_row
            and rt = example_runtime and t = 1714521600000
            and a = example_artist and aid = "''artist-1''" and ast = fresh_artist_store
            and ar = "found fresh_artist_row" and row = fresh_artist_row
            and t' = 1714521600000
            and b = example_artist and bid = "''artist-1''" and bst = bare_artist_store
            and br = "found bare_artist_row" and bare = bare_artist_row
            and rt' = example_runtime]
    show_hyps artist_hyps bare_hyps prepared
  show ?thesis by simp
qed

section \<open>No failure reaches the caller\<close>

lemma check_existing_artist_cases:
  "(\<exists>es. check_existing_artist rt st a aid = (Inr None, es)) \<or>
   (\<exists>row es. check_existing_artist rt st a aid = (Inr (Some (Existing_artist row)), es)
      \<and> returned_by_lookup (artists_select st aid) row)"
  by (cases "artists_select st aid")
     (auto simp add: check_existing_artist_def returned_by_lookup_def io_simps
        split: option.splits)

lemma check_existing_show_cases:
  "(\<exists>es. check_existing_show rt st sid = (Inr None, es)) \<or>
   (\<exists>row es. check_existing_show rt st sid = (Inr (Some (Existing_show row)), es)
      \<and> returned_by_lookup (shows_select st sid) row)"
  by (cases "shows_select st sid")
     (auto simp add: check_existing_show_def returned_by_lookup_def io_simps
        split: option.splits)

lemma write_artist_cases:
  "\<exists>d' es. write_artist st a aid d = (Inr (Artist_record d'), es)
     \<and> (d' = d \<or> returned_by_write (artists_upsert st d) d'
               \<or> returned_by_write (artists_insert st d) d')"
  by (cases "artists_upsert st d"; cases "artists_insert st d")
     (auto simp add: write_artist_def returned_by_write_def row_or_def io_simps Let_def
        split: option.splits list.splits)

lemma write_show_cases:
  "\<exists>d' es. write_show st d = (Inr (Show_record d'), es)
     \<and> (d' = d \<or> returned_by_write (shows_upsert st d) d'
               \<or> returned_by_write (shows_insert st d) d')"
  by (cases "shows_upsert st d"; cases "shows_insert st d")
     (auto simp add: write_show_def returned_by_write_def row_or_def io_simps
        split: option.splits list.splits)

lemma prepare_show_cases:
  "(\<exists>e. prepare_show rt s sid = (Inl e, [])) \<or> (\<exists>d. prepare_show rt s sid = (Inr d, []))"
  by (auto simp add: prepare_show_def io_simps split: option.splits)

lemma save_artist_returns:
  "\<exists>v. result (saveArtistToDatabase rt st artist) = Inr v \<and> artist_result_origin rt st artist v"
proof (cases artist)
  case None
  then show ?thesis
    by (simp add: saveArtistToDatabase_def artist_result_origin_def io_simps)
next
  case (Some a)
  show ?thesis
  proof (cases "art_id a")
    case None
    with Some show ?thesis
      by (simp add: saveArtistToDatabase_def artist_result_origin_def truthy_def io_simps)
  next
    case (Some aid)
    note id = this
    show ?thesis
    proof (cases "aid = []")
      case True
      with id \<open>artist = Some a\<close> show ?thesis
        by (simp add: saveArtistToDatabase_def artist_result_origin_def truthy_def io_simps)
    next
      case False
      from check_existing_artist_cases [of rt st a aid] show ?thesis
      proof (elim disjE exE conjE)
        fix es
        assume chk: "check_existing_artist rt st a aid = (Inr None, es)"
        from write_artist_cases [of st a aid "prepare_artist rt a aid"]
        obtain d' es' where w: "write_artist st a aid (prepare_artist rt a aid) = (Inr (Artist_record d'), es')"
          and d': "d' = prepare_artist rt a aid
                 \<or> returned_by_write (artists_upsert st (prepare_artist rt a aid)) d'
                 \<or> returned_by_write (artists_insert st (prepare_artist rt a aid)) d'"
          by blast
        from chk w d' id False \<open>artist = Some a\<close> show ?thesis
          by (simp add: saveArtistToDatabase_def artist_result_origin_def io_simps)
      next
        fix row es
        assume chk: "check_existing_artist rt st a aid = (Inr (Some (Existing_artist row)), es)"
          and row: "returned_by_lookup (artists_select st aid) row"
        from chk row id False \<open>artist = Some a\<close> show ?thesis
          by (simp add: saveArtistToDatabase_def artist_result_origin_def io_simps)
      qed
    qed
  qed
qed

lemma save_show_returns:
  "\<exists>v. result (saveShowToDatabase rt st show) = Inr v \<and> show_result_origin rt st show v"
proof (cases "show")
  case None
  then show ?thesis
    by (simp add: saveShowToDatabase_def show_result_origin_def io_simps)
next
  case (Some s)
  show ?thesis
  proof (cases "sh_id s")
    case None
    with Some show ?thesis
      by (simp add: saveShowToDatabase_def show_result_origin_def truthy_def io_simps)
  next
    case (Some sid)
    note id = this
    show ?thesis
    proof (cases "sid = []")
      case True
      with id \<open>show = Some s\<close> show ?thesis
        by (simp add: saveShowToDatabase_def show_result_origin_def truthy_def io_simps)
    next
      case False
      from check_existing_show_cases [of rt st sid] show ?thesis
      proof (elim disjE exE conjE)
        fix es
        assume chk: "check_existing_show rt st sid = (Inr None, es)"
        from prepare_show_cases [of rt s sid] show ?thesis
        proof (elim disjE exE)
          fix e
          assume "prepare_show rt s sid = (Inl e, [])"
          with chk id False \<open>show = Some s\<close> show ?thesis
            by (simp add: saveShowToDatabase_def show_result_origin_def io_simps)
        next
          fix d
          assume prep: "prepare_show rt s sid = (Inr d, [])"
          from write_show_cases [of st d]
          obtain d' es' where w: "write_show st d = (Inr (Show_record d'), es')"
            and d': "d' = d \<or> returned_by_write (shows_upsert st d) d'
                   \<or> returned_by_write (shows_insert st d) d'"
            by blast
          from chk prep w d' id False \<open>show = Some s\<close> show ?thesis
            by (simp add: saveShowToDatabase_def show_result_origin_def io_simps)
        qed
      next
        fix row es
        assume chk: "check_existing_show rt st sid = (Inr (Some (Existing_show row)), es)"
          and row: "returned_by_lookup (shows_select st sid) row"
        from chk row id False \<open>show = Some s\<close> show ?thesis
          by (simp add: saveShowToDatabase_def show_result_origin_def io_simps)
      qed
    qed
  qed
qed

text \<open>
  C5. For every argument, every runtime and every behaviour of the store (each call may
  return data, return an error or throw), \<^verbatim>\<open>saveArtistToDatabase\<close> and
  \<^verbatim>\<open>saveShowToDatabase\<close> return a value and throw nothing. The value is \<^verbatim>\<open>null\<close> for an
  argument without an id, and otherwise the existing row, a row returned by the write, the
  prepared record, or the argument itself.
\<close>

theorem save_never_fails:
  "(\<exists>v. result (saveArtistToDatabase rt ast artist) = Inr v
        \<and> artist_result_origin rt ast artist v)
   \<and> (\<exists>v. result (saveShowToDatabase rt sst show) = Inr v
        \<and> show_result_origin rt sst show v)"
  using save_artist_returns [of rt ast artist] save_show_returns [of rt sst "show"]
  by blast

theorem save_never_fails_witness:
  "(\<exists>v. result (saveArtistToDatabase example_runtime broken_artist_store (Some example_artist)) = Inr v
        \<and> artist_result_origin example_runtime broken_artist_store (Some example_artist) v)
   \<and> (\<exists>v. result (saveShowToDatabase example_runtime broken_show_store (Some undated_show)) = Inr v
        \<and> show_result_origin example_runtime broken_show_store (Some undated_show) v)
   \<and> saveArtistToDatabase example_runtime broken_artist_store (Some example_artist) =
       (Inr (Artist_record example_artist_data),
        [Artists_select ''artist-1'', Artists_upsert example_artist_data])
   \<and> saveShowToDatabase example_runtime broken_show_store (Some undated_show) =
       (Inr (Original_show (Some undated_show)), [Shows_select ''show-1''])"
proof -
  have prepared: "prepare_artist example_runtime example_artist ''artist-1'' = example_artist_data"
    by (simp add: prepare_artist_def example_simps js_simps)
  have aid: "art_id example_artist = Some ''artist-1''"
    by (simp add: example_artist_def)
  have achk: "check_existing_artist example_runtime broken_artist_store example_artist ''artist-1''
      = (Inr None, [Artists_select ''artist-1''])"
    by (simp add: check_existing_artist_def broken_artist_store_def artist_store_of_def io_simps)
  have awr: "write_artist broken_artist_store example_artist ''artist-1'' example_artist_data
      = (Inr (Artist_record example_artist_data), [Artists_upsert example_artist_data])"
    by (simp add: write_artist_def broken_artist_store_def artist_store_of_def io_simps)
  have artist_run: "saveArtistToDatabase example_runtime broken_artist_store (Some example_artist) =
       (Inr (Artist_record example_artist_data),
        [Artists_select ''artist-1'', Artists_upsert example_artist_data])"
    by (simp add: saveArtistToDatabase_def aid achk prepared awr io_simps)
  have sid: "sh_id undated_show = Some ''show-1''"
    by (simp add: undated_show_def example_show_def)
  have schk: "check_existing_show example_runtime broken_show_store ''show-1''
      = (Inr None, [Shows_select ''show-1''])"
    by (simp add: check_existing_show_def broken_show_store_def show_store_of_def io_simps)
  have sprep: "prepare_show example_runtime undated_show ''show-1''
      = (Inl (Thrown ''RangeError: Invalid time value''), [])"
    by (simp add: prepare_show_def undated_show_def example_show_def example_runtime_def io_simps)
  have show_run: "saveShowToDatabase example_runtime broken_show_store (Some undated_show) =
       (Inr (Original_show (Some undated_show)), [Shows_select ''show-1''])"
    by (simp add: saveShowToDatabase_def sid schk sprep io_simps)
  from save_never_fails [of example_runtime broken_artist_store "Some example_artist"
                            broken_show_store "Some undated_show"]
    artist_run show_run
  show ?thesis by simp
qed

section \<open>Detached catalog population\<close>










section \<open>Available tracks and the add-song handler\<close>

text \<open>
  C2, as stated, fails for the empty list of stored tracks: the hook then hands the
  setlist to the fallback \<^verbatim>\<open>getAvailableTracks\<close>, and a fallback that offers a track makes
  the result non-empty, although no stored track exists.
\<close>

theorem availableTracks_empty_snapshot_uses_fallback:
  "availableTracks [] (Some []) (Some example_fallback) \<noteq> absent_from_setlist [] []"
  by (simp add: availableTracks_def absent_from_setlist_def example_fallback_def)

text \<open>
  C2, amended. For every non-empty list of stored tracks and every setlist (absent and
  empty included) the available tracks are exactly the stored tracks whose id is not the
  id of a setlist entry, in the order of the stored tracks. For the empty list of stored
  tracks the result is what the fallback \<^verbatim>\<open>getAvailableTracks\<close> returns for the setlist,
  and the empty list when there is no such function.
\<close>

theorem availableTracks_of_snapshot:
  "(storedTracksData \<noteq> [] \<longrightarrow>
      availableTracks storedTracksData setlist getAvailableTracks =
        absent_from_setlist storedTracksData (case setlist of None \<Rightarrow> [] | Some l \<Rightarrow> l)
      \<and> subseq (availableTracks storedTracksData setlist getAvailableTracks) storedTracksData
      \<and> set (availableTracks storedTracksData setlist getAvailableTracks) =
          {t \<in> set storedTracksData.
             track_id t \<notin> song_id ` set (case setlist of None \<Rightarrow> [] | Some l \<Rightarrow> l)})
   \<and> availableTracks [] setlist getAvailableTracks =
       (case getAvailableTracks of
          None \<Rightarrow> []
        | Some f \<Rightarrow> f (case setlist of None \<Rightarrow> [] | Some l \<Rightarrow> l))"
  by (auto simp add: availableTracks_def absent_from_setlist_def Let_def split: option.splits)

theorem availableTracks_of_snapshot_witness:
  "[example_track, \<lparr> track_id = ''t2'', track_name = ''Encore'' \<rparr>] \<noteq> []
   \<and> availableTracks [example_track, \<lparr> track_id = ''t2'', track_name = ''Encore'' \<rparr>]
        (Some [\<lparr> song_id = ''t1'', song_votes = 3 \<rparr>]) (Some example_fallback)
      = [\<lparr> track_id = ''t2'', track_name = ''Encore'' \<rparr>]
   \<and> availableTracks [example_track, \<lparr> track_id = ''t2'', track_name = ''Encore'' \<rparr>]
        (Some []) None
      = [example_track, \<lparr> track_id = ''t2'', track_name = ''Encore'' \<rparr>]"
  using availableTracks_of_snapshot
          [of "[example_track, \<lparr> track_id = ''t2'', track_name = ''Encore'' \<rparr>]"
              "Some [\<lparr> song_id = ''t1'', song_votes = 3 \<rparr>]" "Some example_fallback"]
        availableTracks_of_snapshot
          [of "[example_track, \<lparr> track_id = ''t2'', track_name = ''Encore'' \<rparr>]"
              "Some []" None]
  by (simp add: absent_from_setlist_def example_track_def)

text \<open>
  C10. When no track id is passed (or an empty one) and no track is selected,
  \<^verbatim>\<open>handleAddSongClick\<close> returns at once: for every add-song operation the state that
  operation owns is unchanged, so the operation was not invoked.
\<close>

theorem add_song_without_track_is_noop:
  assumes "\<not> truthy trackId" and "\<not> truthy selectedTrack"
  shows "handleAddSongClick handleAddSong storedTracksData tracks selectedTrack trackId st = st"
  using assms by (simp add: handleAddSongClick_def js_or_def Let_def)

theorem add_song_without_track_is_noop_witness:
  "\<not> truthy None \<and> \<not> truthy (Some '''')
   \<and> handleAddSongClick record_call [example_track] (Some [example_track]) (Some '''') None [] = []
   \<and> handleAddSongClick record_call [example_track] (Some [example_track]) (Some '''') (Some ''t1'') []
       = [[example_track]]"
proof -
  have a: "\<not> truthy None" and b: "\<not> truthy (Some '''')"
    by (simp_all add: truthy_def)
  have c: "handleAddSongClick record_call [example_track] (Some [example_track]) (Some '''') (Some ''t1'') []
       = [[example_track]]"
    by (simp add: handleAddSongClick_def js_or_def truthy_def record_call_def example_track_def)
  from add_song_without_track_is_noop [OF a b, of record_call "[example_track]" "Some [example_track]" "[]"] a b c
  show ?thesis by simp
qed

section \<open>Document metadata\<close>

text \<open>
  C9. For a loaded show without a date (absent, or the empty string) the derived title
  and description carry the placeholder \<open>TBD\<close> where the date goes. For every show,
  every loading state and every behaviour of the date functions, the derivation yields
  metadata and throws nothing.
\<close>

theorem absent_date_is_TBD:
  "(\<not> truthy (show_date s) \<longrightarrow>
      documentMetadata_effect rt (Some s) False current =
        (Inr \<lparr> md_title =
                 ''TheSet | '' @ artistName s @ '' at '' @ venueName s @ '' in '' @
                 venueLocation s @ '' | TBD'',
               md_description =
                 ''Vote on '' @ artistName s @ [CHR 0x27] @ ''s setlist for their show at '' @
                 venueName s @ '' in '' @ venueLocation s @
                 '' on TBD. Influence what songs they'' @ [CHR 0x27] @ ''ll play live!'' \<rparr>,
         []))
   \<and> (\<exists>m. result (documentMetadata_effect rt show isLoadingShow current) = Inr m)"
proof
  show "\<not> truthy (show_date s) \<longrightarrow>
      documentMetadata_effect rt (Some s) False current =
        (Inr \<lparr> md_title =
                 ''TheSet | '' @ artistName s @ '' at '' @ venueName s @ '' in '' @
                 venueLocation s @ '' | TBD'',
               md_description =
                 ''Vote on '' @ artistName s @ [CHR 0x27] @ ''s setlist for their show at '' @
                 venueName s @ '' in '' @ venueLocation s @
                 '' on TBD. Influence what songs they'' @ [CHR 0x27] @ ''ll play live!'' \<rparr>,
         [])"
    by (auto simp add: documentMetadata_effect_def formattedDate_def title_of_def
          description_of_def truthy_def io_simps split: option.splits)
next
  show "\<exists>m. result (documentMetadata_effect rt show isLoadingShow current) = Inr m"
    unfolding documentMetadata_effect_def result_def
    by (auto simp add: ret_def intro!: try_catch_total split: option.splits)
qed

theorem absent_date_is_TBD_witness:
  "\<not> truthy (show_date example_show_details)
   \<and> documentMetadata_effect example_runtime (Some example_show_details) False empty_metadata =
       (Inr \<lparr> md_title = ''TheSet | The Band at Town Hall in Austin, TX | TBD'',
              md_description =
                ''Vote on The Band'' @ [CHR 0x27] @
                ''s setlist for their show at Town Hall in Austin, TX on TBD. '' @
                ''Influence what songs they'' @ [CHR 0x27] @ ''ll play live!'' \<rparr>,
        [])"
proof -
  have absent: "\<not> truthy (show_date example_show_details)"
    by (simp add: example_show_details_def truthy_def)
  have names: "artistName example_show_details = ''The Band''"
    "venueName example_show_details = ''Town Hall''"
    "venueLocation example_show_details = ''Austin, TX''"
    by (simp_all add: artistName_def venueName_def venueLocation_def example_show_details_def
          str_or_def)
  from absent_date_is_TBD [of example_show_details example_runtime empty_metadata] absent names
  show ?thesis by simp
qed

end
